theory Spec2Isabelle
  imports Main
begin

section \<open>Python values\<close>

text \<open>
  A Python \<open>str\<close> is a sequence of Unicode code points, so it is modelled as a list of
  natural numbers; \<open>len\<close> is \<open>length\<close> and \<open>==\<close> is equality of lists.  ASCII literals
  of the source are written \<open>ascii ''...''\<close>.
\<close>

type_synonym pystr = "nat list"

definition ascii :: "string \<Rightarrow> pystr" where
  "ascii s = map of_char s"

text \<open>
  The values \<open>json.loads\<close> produces and \<open>json.dumps\<close> consumes.  A \<open>dict\<close> keeps its
  insertion order, so it is an association list.  Binary64 floats are not modelled: the
  decoder below reports a number with a fraction or an exponent as \<open>Float_not_modelled\<close>.
\<close>

datatype json =
    JNone
  | JBool bool
  | JInt int
  | JStr pystr
  | JList "json list"
  | JDict "(pystr \<times> json) list"

type_synonym pydict = "(pystr \<times> json) list"

datatype exn =
    JSONDecodeError
  | UnicodeDecodeError
  | UnicodeEncodeError
  | RecursionError
  | ValueError
  | TypeError
  | AttributeError
  | ZeroDivisionError
  | Float_not_modelled

text \<open>\<open>d.get(k, default)\<close>, \<open>d[k] = v\<close> and \<open>d.update(other)\<close>.\<close>

definition dict_get :: "pydict \<Rightarrow> pystr \<Rightarrow> json \<Rightarrow> json" where
  "dict_get d k dflt = (case map_of d k of None \<Rightarrow> dflt | Some v \<Rightarrow> v)"

fun dict_set :: "pydict \<Rightarrow> pystr \<Rightarrow> json \<Rightarrow> pydict" where
  "dict_set [] k v = [(k, v)]"
| "dict_set ((k', v') # d) k v =
     (if k' = k then (k, v) # d else (k', v') # dict_set d k v)"

definition dict_update :: "pydict \<Rightarrow> pydict \<Rightarrow> pydict" where
  "dict_update d other = foldl (\<lambda>acc (k, v). dict_set acc k v) d other"

subsection \<open>\<open>str.strip\<close>\<close>

text \<open>
  \<open>str.strip()\<close> removes the leading and trailing characters for which \<open>str.isspace\<close>
  holds; the table is the one of CPython's Unicode database.
\<close>

definition in_ranges :: "(nat \<times> nat) list \<Rightarrow> nat \<Rightarrow> bool" where
  "in_ranges rs c = list_ex (\<lambda>(lo, hi). lo \<le> c \<and> c \<le> hi) rs"

definition isspace_ranges :: "(nat \<times> nat) list" where
  "isspace_ranges =
     [(9, 13), (28, 32), (133, 133), (160, 160), (5760, 5760), (8192, 8202),
      (8232, 8233), (8239, 8239), (8287, 8287), (12288, 12288)]"

definition isspace :: "nat \<Rightarrow> bool" where
  "isspace c = in_ranges isspace_ranges c"

definition strip :: "pystr \<Rightarrow> pystr" where
  "strip s = rev (dropWhile isspace (rev (dropWhile isspace s)))"

section \<open>\<open>json.dumps(obj, ensure_ascii=False, indent=2)\<close>\<close>

fun digits_of :: "nat \<Rightarrow> pystr" where
  "digits_of n = (if n < 10 then [48 + n] else digits_of (n div 10) @ [48 + n mod 10])"

declare digits_of.simps [simp del]

definition int_repr :: "int \<Rightarrow> pystr" where
  "int_repr i = (if i < 0 then 45 # digits_of (nat (- i)) else digits_of (nat i))"

definition hex_digit :: "nat \<Rightarrow> nat" where
  "hex_digit d = (if d < 10 then 48 + d else 87 + d)"

text \<open>
  \<open>ESCAPE_DCT\<close> of \<open>json.encoder\<close>: the backslash (92), the double quote (34) and the
  control characters below U+0020 are escaped (98, 102, 110, 114, 116 and 117 are the letters
  b, f, n, r, t and u); with \<open>ensure_ascii=False\<close> every other character is copied.
\<close>

definition escape_char :: "nat \<Rightarrow> pystr" where
  "escape_char c =
     (if c = 92 then [92, 92]
      else if c = 34 then [92, 34]
      else if c = 8 then [92, 98]
      else if c = 12 then [92, 102]
      else if c = 10 then [92, 110]
      else if c = 13 then [92, 114]
      else if c = 9 then [92, 116]
      else if c < 32 then [92, 117, 48, 48, hex_digit (c div 16), hex_digit (c mod 16)]
      else [c])"

definition encode_basestring :: "pystr \<Rightarrow> pystr" where
  "encode_basestring s = 34 # concat (map escape_char s) @ [34]"

definition newline_indent :: "nat \<Rightarrow> pystr" where
  "newline_indent lvl = 10 # replicate (2 * lvl) 32"

fun join :: "pystr \<Rightarrow> pystr list \<Rightarrow> pystr" where
  "join sep [] = []"
| "join sep [x] = x"
| "join sep (x # y # ys) = x @ sep @ join sep (y # ys)"

fun iterencode :: "nat \<Rightarrow> json \<Rightarrow> pystr" where
  "iterencode lvl JNone = ascii ''null''"
| "iterencode lvl (JBool b) = (if b then ascii ''true'' else ascii ''false'')"
| "iterencode lvl (JInt i) = int_repr i"
| "iterencode lvl (JStr s) = encode_basestring s"
| "iterencode lvl (JList xs) =
     (if xs = [] then ascii ''[]''
      else ascii ''['' @ newline_indent (Suc lvl)
        @ join (ascii '','' @ newline_indent (Suc lvl)) (map (iterencode (Suc lvl)) xs)
        @ newline_indent lvl @ ascii '']'')"
| "iterencode lvl (JDict kvs) =
     (if kvs = [] then ascii ''{}''
      else ascii ''{'' @ newline_indent (Suc lvl)
        @ join (ascii '','' @ newline_indent (Suc lvl))
            (map (\<lambda>(k, v). encode_basestring k @ ascii '': '' @ iterencode (Suc lvl) v) kvs)
        @ newline_indent lvl @ ascii ''}'')"

definition json_dumps :: "json \<Rightarrow> pystr" where
  "json_dumps v = iterencode 0 v"

section \<open>Files\<close>

text \<open>
  The two files beside the program.  A file that exists holds either bytes that are not
  valid UTF-8 or a text.  \<open>Path.write_text(t, encoding="utf-8")\<close> opens the file for
  writing, which empties it, and then encodes \<open>t\<close>; a surrogate code point cannot be
  encoded, so the write raises \<open>UnicodeEncodeError\<close> and leaves the file empty.
  \<open>Path.read_text\<close> decodes strictly and translates CR LF and a lone CR (13) to LF (10).
\<close>

datatype file_content = Not_utf8 | Text pystr

record filesystem =
  DATA_FILE :: "file_content option"
  CONFIG_FILE :: "file_content option"

definition surrogate :: "nat \<Rightarrow> bool" where
  "surrogate c = (55296 \<le> c \<and> c \<le> 57343)"

definition write_text :: "pystr \<Rightarrow> file_content \<times> exn option" where
  "write_text t =
     (if list_ex surrogate t then (Text [], Some UnicodeEncodeError) else (Text t, None))"

fun universal_newlines :: "pystr \<Rightarrow> pystr" where
  "universal_newlines [] = []"
| "universal_newlines [c] = [if c = 13 then 10 else c]"
| "universal_newlines (c # d # t) =
     (if c = 13 \<and> d = 10 then 10 # universal_newlines t
      else if c = 13 then 10 # universal_newlines (d # t)
      else c # universal_newlines (d # t))"

definition read_text :: "file_content \<Rightarrow> exn + pystr" where
  "read_text f = (case f of Not_utf8 \<Rightarrow> Inl UnicodeDecodeError
                  | Text t \<Rightarrow> Inr (universal_newlines t))"

section \<open>ConfigManager\<close>

definition DEFAULT_CREDENTIALS :: pydict where
  "DEFAULT_CREDENTIALS =
     [(ascii ''username'', JStr [36229, 22823, 29579]),
      (ascii ''password'', JStr (ascii ''123456'')),
      (ascii ''height'', JInt 170),
      (ascii ''weight'', JInt 65)]"

definition credential_keys :: "pystr list" where
  "credential_keys = [ascii ''username'', ascii ''password'', ascii ''height'', ascii ''weight'']"

definition save_payload :: "pydict \<Rightarrow> pydict" where
  "save_payload credentials =
     dict_update DEFAULT_CREDENTIALS (filter (\<lambda>(k, v). k \<in> set credential_keys) credentials)"

definition save_credentials :: "pydict \<Rightarrow> filesystem \<Rightarrow> filesystem \<times> exn option" where
  "save_credentials credentials fs =
     (let (f, e) = write_text (json_dumps (JDict (save_payload credentials)))
      in (fs\<lparr>CONFIG_FILE := Some f\<rparr>, e))"

section \<open>Dialogs\<close>

text \<open>
  Every \<open>AlertDialog(title, message).exec_()\<close> of the source is one constructor; the
  comments give the title and the message in English.
\<close>

datatype alert =
    Wrong_username          \<comment> \<open>authentication failed: the user name is not correct\<close>
  | Wrong_password          \<comment> \<open>authentication failed: wrong password\<close>
  | Food_missing            \<comment> \<open>data missing: please fill in the food name\<close>
  | Calories_not_a_number   \<comment> \<open>format error: the calories must be a number\<close>
  | Old_password_wrong      \<comment> \<open>old password wrong: enter the correct old password\<close>
  | New_password_too_short  \<comment> \<open>new password invalid: at least 6 characters\<close>
  | New_password_same       \<comment> \<open>new password invalid: must differ from the old one\<close>
  | Confirmation_differs    \<comment> \<open>the two inputs differ\<close>
  | Password_updated        \<comment> \<open>changed: the password has been updated\<close>
  | Settings_saved          \<comment> \<open>saved: the settings have been updated\<close>

subsection \<open>LoginWindow\<close>

record login_window =
  login_credentials :: pydict
  username_edit :: pystr
  password_edit :: pystr
  authenticated_user :: pystr
  accepted :: bool

definition validate_login :: "login_window \<Rightarrow> login_window \<times> alert list" where
  "validate_login lw =
     (let username = strip (username_edit lw);
          password = password_edit lw;
          expected_user = dict_get (login_credentials lw) (ascii ''username'') (JStr (ascii ''admin''));
          expected_pass = dict_get (login_credentials lw) (ascii ''password'') (JStr (ascii ''123456''))
      in if JStr username \<noteq> expected_user then (lw, [Wrong_username])
         else if JStr password \<noteq> expected_pass then (lw, [Wrong_password])
         else (lw\<lparr>authenticated_user :=
                      (if username = [] then [20581, 24247, 36798, 20154] else username),
                   accepted := True\<rparr>, []))"

subsection \<open>MainWindow\<close>

text \<open>
  The widgets are \<open>None\<close> until the pages are built; a line edit is modelled by its text
  and a spin box by its value.
\<close>

text \<open>
  The dashboard widgets hold what they show: a row of the recent table is the record and
  the index its two buttons act on, the progress bar is (maximum, value), the intake
  label is (intake, target), the label under it says how much is left or how
  much the target is exceeded, and the highlight labels are a dict from \<open>week\<close>,
  \<open>today\<close> and \<open>total\<close> to the number shown.
\<close>

datatype delta_text = Remaining int | Exceeded int

record main_window =
  username :: pystr
  records :: "json list"
  target_calories :: int
  credentials :: pydict
  name_input :: "pystr option"
  target_spin :: "int option"
  height_spin :: "int option"
  weight_spin :: "int option"
  old_password_input :: "pystr option"
  new_password_input :: "pystr option"
  confirm_password_input :: "pystr option"
  recent_table :: "(nat \<times> json) list option"
  calorie_progress :: "(int \<times> int) option"
  calorie_label :: "(int \<times> int) option"
  calorie_delta_label :: "delta_text option"
  highlight_labels :: "(pystr \<times> nat) list"

text \<open>
  What a slot leaves behind: the window, the files, the alerts shown, and the
  exception that escaped, if any.
\<close>

type_synonym effect = "main_window \<times> filesystem \<times> alert list \<times> exn option"

definition handle_password_change :: "main_window \<Rightarrow> filesystem \<Rightarrow> effect" where
  "handle_password_change w fs =
     (case (old_password_input w, new_password_input w, confirm_password_input w) of
        (Some old, Some new, Some confirm) \<Rightarrow>
          (let stored = dict_get (credentials w) (ascii ''password'')
                          (the (map_of DEFAULT_CREDENTIALS (ascii ''password'')))
           in if JStr old \<noteq> stored then (w, fs, [Old_password_wrong], None)
              else if length new < 6 then (w, fs, [New_password_too_short], None)
              else if JStr new = stored then (w, fs, [New_password_same], None)
              else if new \<noteq> confirm then (w, fs, [Confirmation_differs], None)
              else
                (let w1 = w\<lparr>credentials := dict_set (credentials w) (ascii ''password'') (JStr new)\<rparr>;
                     (fs1, e) = save_credentials (credentials w1) fs
                 in case e of
                      Some x \<Rightarrow> (w1, fs1, [], Some x)
                    | None \<Rightarrow>
                        (w1\<lparr>old_password_input := Some [], new_password_input := Some [],
                            confirm_password_input := Some []\<rparr>, fs1, [Password_updated], None)))
      | _ \<Rightarrow> (w, fs, [], None))"

subsection \<open>Reading a record\<close>

text \<open>
  A record is whatever \<open>json.loads\<close> returned for it; \<open>record.get(key, default)\<close> raises
  \<open>AttributeError\<close> unless it is a dict.
\<close>

definition py_get :: "json \<Rightarrow> pystr \<Rightarrow> json \<Rightarrow> exn + json" where
  "py_get r k dflt = (case r of JDict d \<Rightarrow> Inr (dict_get d k dflt) | _ \<Rightarrow> Inl AttributeError)"

subsection \<open>The recent records\<close>

text \<open>\<open>list(enumerate(xs))\<close>, and \<open>list(reversed(indexed[-4:]))\<close>.\<close>

definition enumerate_list :: "'a list \<Rightarrow> (nat \<times> 'a) list" where
  "enumerate_list xs = zip [0 ..< length xs] xs"

definition latest :: "json list \<Rightarrow> (nat \<times> json) list" where
  "latest rs = (let indexed = enumerate_list rs in rev (drop (length indexed - 4) indexed))"

definition refresh_recent_records :: "main_window \<Rightarrow> main_window" where
  "refresh_recent_records w =
     (case recent_table w of None \<Rightarrow> w
      | Some _ \<Rightarrow> w\<lparr>recent_table := Some (latest (records w))\<rparr>)"

subsection \<open>The calorie summary\<close>

text \<open>
  \<open>sum(record.get("calories", 0) for record in self.records if record.get("date") == today)\<close>:
  the sum starts at 0 and adds the values in order; an \<open>int\<close> or a \<open>bool\<close> can be
  added, every other value of the model raises \<open>TypeError\<close>.
\<close>

definition add_json :: "int \<Rightarrow> json \<Rightarrow> exn + int" where
  "add_json acc v = (case v of JInt i \<Rightarrow> Inr (acc + i)
                     | JBool b \<Rightarrow> Inr (acc + (if b then 1 else 0))
                     | _ \<Rightarrow> Inl TypeError)"

fun today_total :: "json list \<Rightarrow> pystr \<Rightarrow> int \<Rightarrow> exn + int" where
  "today_total [] today acc = Inr acc"
| "today_total (r # rs) today acc =
     (case py_get r (ascii ''date'') JNone of
        Inl e \<Rightarrow> Inl e
      | Inr d \<Rightarrow>
          if d = JStr today
          then (case py_get r (ascii ''calories'') (JInt 0) of
                  Inl e \<Rightarrow> Inl e
                | Inr c \<Rightarrow> (case add_json acc c of
                             Inl e \<Rightarrow> Inl e
                           | Inr acc' \<Rightarrow> today_total rs today acc'))
          else today_total rs today acc)"

definition update_calorie_summary :: "main_window \<Rightarrow> pystr \<Rightarrow> exn + main_window" where
  "update_calorie_summary w today =
     (case (calorie_progress w, calorie_label w) of
        (Some _, Some _) \<Rightarrow>
          (case today_total (records w) today 0 of
             Inl e \<Rightarrow> Inl e
           | Inr total_today \<Rightarrow>
               (let w1 = w\<lparr>calorie_progress := Some (target_calories w, min total_today (target_calories w)),
                           calorie_label := Some (total_today, target_calories w)\<rparr>
                in case calorie_delta_label w of
                     None \<Rightarrow> Inr w1
                   | Some _ \<Rightarrow>
                       (let remaining = target_calories w - total_today
                        in if remaining > 0
                           then Inr (w1\<lparr>calorie_delta_label := Some (Remaining remaining)\<rparr>)
                           else Inr (w1\<lparr>calorie_delta_label := Some (Exceeded (abs remaining))\<rparr>))))
      | _ \<Rightarrow> Inr w)"

section \<open>Well-formed values and example states\<close>

text \<open>
  A text can be written to a UTF-8 file when it holds no surrogate code point; \<open>text_ok\<close>
  says so of every string of a value.
\<close>

definition encodable :: "pystr \<Rightarrow> bool" where
  "encodable t = (\<not> list_ex surrogate t)"

fun text_ok :: "json \<Rightarrow> bool" where
  "text_ok (JStr s) = encodable s"
| "text_ok (JList xs) = list_all text_ok xs"
| "text_ok (JDict kvs) = list_all (\<lambda>(k, v). encodable k \<and> text_ok v) kvs"
| "text_ok _ = True"

definition example_window :: main_window where
  "example_window =
     \<lparr>username = [20581, 24247, 36798, 20154], records = [], target_calories = 2000,
      credentials = DEFAULT_CREDENTIALS,
      name_input = Some [20581, 24247, 36798, 20154], target_spin = Some 2000,
      height_spin = Some 170, weight_spin = Some 65,
      old_password_input = Some [], new_password_input = Some [],
      confirm_password_input = Some [],
      recent_table = Some [], calorie_progress = Some (2000, 0), calorie_label = Some (0, 2000),
      calorie_delta_label = Some (Remaining 2000),
      highlight_labels = [(ascii ''week'', 0), (ascii ''today'', 0), (ascii ''total'', 0)]\<rparr>"

definition example_files :: filesystem where
  "example_files =
     \<lparr>DATA_FILE = None, CONFIG_FILE = Some (Text (json_dumps (JDict DEFAULT_CREDENTIALS)))\<rparr>"

definition example_login :: login_window where
  "example_login =
     \<lparr>login_credentials =
        [(ascii ''username'', JStr (ascii ''admin'')), (ascii ''password'', JStr (ascii ''123456'')),
         (ascii ''height'', JInt 170), (ascii ''weight'', JInt 65)],
      username_edit = ascii ''admin '', password_edit = ascii ''123456'',
      authenticated_user = ascii ''admin'', accepted = False\<rparr>"

text \<open>
  A record as the dialog builds it (the meal is the first entry of the meal box), and a small
  diary of five records over three days.
\<close>

definition example_record :: "string \<Rightarrow> string \<Rightarrow> int \<Rightarrow> json" where
  "example_record day food kcal =
     JDict [(ascii ''date'', JStr (ascii day)), (ascii ''meal'', JStr [26089, 39184]),
            (ascii ''food'', JStr (ascii food)), (ascii ''calories'', JInt kcal),
            (ascii ''note'', JStr [])]"

definition example_records :: "json list" where
  "example_records =
     [example_record ''2024-05-01'' ''oats'' 300, example_record ''2024-05-01'' ''rice'' 700,
      example_record ''2024-05-02'' ''eggs'' 200, example_record ''2024-05-03'' ''soup'' 400,
      example_record ''2024-05-03'' ''fish'' 1600]"

text \<open>
  Two readings of a record, used to say what the summaries compute: whether its date is the
  given text, and its calories when they are an integer.
\<close>

definition is_dated :: "pystr \<Rightarrow> json \<Rightarrow> bool" where
  "is_dated today r = (py_get r (ascii ''date'') JNone = Inr (JStr today))"

definition int_calories :: "json \<Rightarrow> int option" where
  "int_calories r = (case py_get r (ascii ''calories'') (JInt 0) of
                       Inr (JInt c) \<Rightarrow> Some c | _ \<Rightarrow> None)"

section \<open>Dictionaries and the encoder: auxiliary facts\<close>

lemma pw_default: "the (map_of DEFAULT_CREDENTIALS (ascii ''password'')) = JStr (ascii ''123456'')"
  by (simp add: DEFAULT_CREDENTIALS_def ascii_def)

lemma dict_get_set_same: "dict_get (dict_set d k v) k dflt = v"
  by (induction d) (auto simp: dict_get_def)

lemma dict_get_set_other: "k' \<noteq> k \<Longrightarrow> dict_get (dict_set d k v) k' dflt = dict_get d k' dflt"
  by (induction d) (auto simp: dict_get_def)

lemma keys_dict_set: "fst ` set (dict_set d k v) = insert k (fst ` set d)"
  by (induction d k v rule: dict_set.induct) (simp_all add: insert_commute)

lemma distinct_dict_set: "distinct (map fst d) \<Longrightarrow> distinct (map fst (dict_set d k v))"
  by (induction d) (auto simp: keys_dict_set)

lemma dict_get_update:
  "distinct (map fst other) \<Longrightarrow>
   dict_get (dict_update d other) k dflt =
     (case map_of other k of Some v \<Rightarrow> v | None \<Rightarrow> dict_get d k dflt)"
  unfolding dict_update_def
proof (induction other arbitrary: d)
  case Nil
  then show ?case by simp
next
  case (Cons kv other)
  obtain k1 v1 where kv: "kv = (k1, v1)" by (cases kv)
  from Cons.prems kv have d: "distinct (map fst other)" and n: "map_of other k1 = None"
    by (auto simp: map_of_eq_None_iff)
  show ?case
    using Cons.IH [OF d, of "dict_set d k1 v1"] n
    by (auto simp: kv dict_get_set_same dict_get_set_other split: option.splits)
qed

lemma map_of_filter_keys:
  "map_of (filter (\<lambda>(k, v). k \<in> K) d) k = (if k \<in> K then map_of d k else None)"
  by (induction d) auto

lemma distinct_filter_keys:
  "distinct (map fst d) \<Longrightarrow> distinct (map fst (filter P d))"
  by (induction d) auto

lemma save_payload_get:
  assumes "distinct (map fst c)" and "k \<in> set credential_keys"
  shows "dict_get (save_payload c) k dflt = dict_get c k (dict_get DEFAULT_CREDENTIALS k dflt)"
  using assms
  by (simp add: save_payload_def dict_get_update distinct_filter_keys map_of_filter_keys)
     (simp add: dict_get_def split: option.splits)

lemma map_fst_dict_set_mem:
  "k \<in> fst ` set d \<Longrightarrow> map fst (dict_set d k v) = map fst d"
  by (induction d) force+

lemma map_fst_dict_update_sub:
  "fst ` set other \<subseteq> fst ` set d \<Longrightarrow> map fst (dict_update d other) = map fst d"
  unfolding dict_update_def
proof (induction other arbitrary: d)
  case Nil
  then show ?case by simp
next
  case (Cons kv other)
  obtain k v where kv: "kv = (k, v)" by (cases kv)
  with Cons.prems have k: "k \<in> fst ` set d" by auto
  have "fst ` set other \<subseteq> fst ` set (dict_set d k v)"
    using Cons.prems by (auto simp: keys_dict_set)
  from Cons.IH [OF this] show ?case
    by (simp add: kv map_fst_dict_set_mem [OF k])
qed

lemma save_payload_keys: "map fst (save_payload c) = credential_keys"
proof -
  have "fst ` set (filter (\<lambda>(k, v). k \<in> set credential_keys) c) \<subseteq> fst ` set DEFAULT_CREDENTIALS"
    by (auto simp: DEFAULT_CREDENTIALS_def credential_keys_def)
  then show ?thesis
    unfolding save_payload_def
    by (simp add: map_fst_dict_update_sub) (simp add: DEFAULT_CREDENTIALS_def credential_keys_def)
qed



lemma encodable_iff: "encodable t \<longleftrightarrow> (\<forall>c \<in> set t. \<not> surrogate c)"
  by (simp add: encodable_def list_ex_iff)

lemma encodable_append [simp]: "encodable (a @ b) \<longleftrightarrow> encodable a \<and> encodable b"
  by (auto simp: encodable_iff)

lemma encodable_Cons [simp]: "encodable (c # t) \<longleftrightarrow> \<not> surrogate c \<and> encodable t"
  by (auto simp: encodable_iff)

lemma encodable_Nil [simp]: "encodable []"
  by (simp add: encodable_iff)

lemma of_char_less_256: "(of_char c :: nat) < 256"
proof -
  have "(of_char c :: nat) mod 256 < 256" by simp
  then show ?thesis by (simp only: of_char_mod_256)
qed

lemma encodable_ascii [simp]: "encodable (ascii s)"
proof -
  have "\<not> surrogate (of_char c)" for c :: char
    using of_char_less_256 [of c] unfolding surrogate_def by linarith
  then show ?thesis by (auto simp: encodable_iff ascii_def)
qed

lemma digits_of_range: "c \<in> set (digits_of n) \<Longrightarrow> 48 \<le> c \<and> c \<le> 57"
proof (induction n arbitrary: c rule: digits_of.induct)
  case (1 n)
  show ?case
  proof (cases "n < 10")
    case True
    with "1.prems" show ?thesis by (simp add: digits_of.simps [of n])
  next
    case False
    with "1.prems" have "c \<in> set (digits_of (n div 10)) \<or> c = 48 + n mod 10"
      by (auto simp: digits_of.simps [of n])
    then show ?thesis
    proof
      assume "c \<in> set (digits_of (n div 10))"
      with "1.IH" [OF False] show ?thesis .
    next
      assume "c = 48 + n mod 10"
      moreover have "n mod 10 < 10" by simp
      ultimately show ?thesis by linarith
    qed
  qed
qed

lemma encodable_int_repr [simp]: "encodable (int_repr i)"
  by (auto simp: encodable_iff int_repr_def surrogate_def dest: digits_of_range)

lemma encodable_escape_char: "\<not> surrogate c \<Longrightarrow> encodable (escape_char c)"
proof -
  have "c mod 16 < 16" and "c div 16 \<le> c" by simp_all
  then show "\<not> surrogate c \<Longrightarrow> encodable (escape_char c)"
    by (auto simp: escape_char_def hex_digit_def surrogate_def)
qed

lemma encodable_concat: "(\<And>x. x \<in> set xs \<Longrightarrow> encodable x) \<Longrightarrow> encodable (concat xs)"
  by (induction xs) auto

lemma encodable_basestring [simp]: "encodable s \<Longrightarrow> encodable (encode_basestring s)"
proof -
  assume s: "encodable s"
  have "encodable (concat (map escape_char s))"
    using s by (auto simp: encodable_iff [of s] intro!: encodable_concat encodable_escape_char)
  then show ?thesis by (simp add: encode_basestring_def surrogate_def)
qed

lemma encodable_newline_indent [simp]: "encodable (newline_indent l)"
  by (simp add: newline_indent_def surrogate_def encodable_iff)

lemma encodable_join:
  "encodable sep \<Longrightarrow> (\<And>x. x \<in> set xs \<Longrightarrow> encodable x) \<Longrightarrow> encodable (join sep xs)"
  by (induction sep xs rule: join.induct) auto

lemma encodable_iterencode: "text_ok v \<Longrightarrow> encodable (iterencode lvl v)"
proof (induction lvl v rule: iterencode.induct)
  case (5 lvl xs)
  have "encodable x" if "x \<in> set (map (iterencode (Suc lvl)) xs)" for x
  proof -
    from that obtain v where v: "v \<in> set xs" and x: "x = iterencode (Suc lvl) v" by auto
    from "5.prems" v have "text_ok v" by (simp add: list_all_iff)
    with "5.IH" v x show ?thesis by (cases "xs = []") auto
  qed
  then have "encodable (join (ascii '','' @ newline_indent (Suc lvl)) (map (iterencode (Suc lvl)) xs))"
    by (intro encodable_join) simp_all
  then show ?case by simp
next
  case (6 lvl kvs)
  have "encodable x"
    if "x \<in> set (map (\<lambda>(k, v). encode_basestring k @ ascii '': '' @ iterencode (Suc lvl) v) kvs)" for x
  proof -
    from that obtain k v where kv: "(k, v) \<in> set kvs"
      and x: "x = encode_basestring k @ ascii '': '' @ iterencode (Suc lvl) v" by auto
    from "6.prems" kv have "encodable k" "text_ok v" by (auto simp: list_all_iff)
    moreover from "6.IH" [OF _ kv refl] kv \<open>text_ok v\<close> have "encodable (iterencode (Suc lvl) v)"
      by (cases "kvs = []") auto
    ultimately show ?thesis by (simp add: x)
  qed
  then have "encodable (join (ascii '','' @ newline_indent (Suc lvl))
      (map (\<lambda>(k, v). encode_basestring k @ ascii '': '' @ iterencode (Suc lvl) v) kvs))"
    by (intro encodable_join) simp_all
  then show ?case by simp
qed simp_all

lemma encodable_json_dumps: "text_ok v \<Longrightarrow> encodable (json_dumps v)"
  by (simp add: json_dumps_def encodable_iterencode)


lemma list_all_dict_set:
  "list_all P d \<Longrightarrow> P (k, v) \<Longrightarrow> list_all P (dict_set d k v)"
  by (induction d k v rule: dict_set.induct) auto

lemma list_all_dict_update:
  "list_all P d \<Longrightarrow> list_all P other \<Longrightarrow> list_all P (dict_update d other)"
  unfolding dict_update_def
  by (induction other arbitrary: d) (auto simp: list_all_dict_set)

lemma text_ok_DEFAULT: "list_all (\<lambda>(k, v). encodable k \<and> text_ok v) DEFAULT_CREDENTIALS"
  by (simp add: DEFAULT_CREDENTIALS_def surrogate_def)

lemma text_ok_save_payload:
  "text_ok (JDict c) \<Longrightarrow> text_ok (JDict (save_payload c))"
proof -
  assume "text_ok (JDict c)"
  then have "list_all (\<lambda>(k, v). encodable k \<and> text_ok v)
      (filter (\<lambda>(k, v). k \<in> set credential_keys) c)"
    by (auto simp: list_all_iff)
  then show ?thesis
    by (simp add: save_payload_def list_all_dict_update text_ok_DEFAULT)
qed

lemma write_text_ok: "encodable t \<Longrightarrow> write_text t = (Text t, None)"
  by (simp add: write_text_def encodable_def)

lemma save_credentials_ok:
  "text_ok (JDict c) \<Longrightarrow>
   save_credentials c fs = (fs\<lparr>CONFIG_FILE := Some (Text (json_dumps (JDict (save_payload c))))\<rparr>, None)"
proof -
  assume "text_ok (JDict c)"
  then have "encodable (json_dumps (JDict (save_payload c)))"
    by (intro encodable_json_dumps text_ok_save_payload)
  then show ?thesis
    by (simp add: save_credentials_def write_text_ok)
qed

section \<open>Records: auxiliary facts\<close>

lemma map_snd_enumerate_list: "map snd (enumerate_list xs) = xs"
  by (simp add: enumerate_list_def)

lemma map_fst_enumerate_list: "map fst (enumerate_list xs) = [0 ..< length xs]"
  by (simp add: enumerate_list_def)

lemma length_enumerate_list: "length (enumerate_list xs) = length xs"
  by (simp add: enumerate_list_def)

lemma map_snd_latest: "map snd (latest rs) = rev (drop (length rs - 4) rs)"
  by (simp add: latest_def Let_def length_enumerate_list rev_map [symmetric] drop_map [symmetric]
        map_snd_enumerate_list)

lemma map_fst_latest: "map fst (latest rs) = rev [length rs - 4 ..< length rs]"
  by (simp add: latest_def Let_def length_enumerate_list rev_map [symmetric] drop_map [symmetric]
        map_fst_enumerate_list)

lemma latest_nth: "(i, r) \<in> set (latest rs) \<Longrightarrow> i < length rs \<and> rs ! i = r"
  by (auto simp: latest_def Let_def enumerate_list_def in_set_zip dest!: in_set_dropD)

lemma today_total_sum:
  assumes "\<forall>r \<in> set rs. \<exists>d. r = JDict d"
      and "\<forall>r \<in> set rs. is_dated today r \<longrightarrow> int_calories r \<noteq> None"
  shows "today_total rs today acc
           = Inr (acc + (\<Sum>r \<leftarrow> filter (is_dated today) rs. the (int_calories r)))"
  using assms
proof (induction rs arbitrary: acc)
  case Nil
  then show ?case by simp
next
  case (Cons r rs)
  then obtain d where r: "r = JDict d" by auto
  show ?case
  proof (cases "is_dated today r")
    case True
    with Cons.prems obtain c where c: "int_calories r = Some c" by auto
    then have "py_get r (ascii ''calories'') (JInt 0) = Inr (JInt c)"
      by (auto simp: int_calories_def split: sum.splits json.splits)
    with True c Cons show ?thesis
      by (simp add: is_dated_def r py_get_def add_json_def)
  next
    case False
    with Cons show ?thesis
      by (simp add: is_dated_def r py_get_def)
  qed
qed

section \<open>The claims\<close>

subsection \<open>C1: changing the password\<close>

text \<open>
  Claim C1.  With the three password fields filled in, \<open>handle_password_change\<close> succeeds
  exactly when the old password equals the stored one, the new one has at least 6
  characters, differs from the stored one and equals the confirmation.  Then the stored
  password is the new one and the profile written to the configuration file holds it.
  Otherwise the window and the files are unchanged and the alert shown is the one of the
  first violated condition, in that order; the alerts are pairwise distinct.  The profile
  is a dict (distinct keys) whose texts can be encoded as UTF-8.
\<close>

theorem handle_password_change_spec:
  assumes "old_password_input w = Some old"
      and "new_password_input w = Some new"
      and "confirm_password_input w = Some confirm"
      and "stored = dict_get (credentials w) (ascii ''password'') (JStr (ascii ''123456''))"
      and "distinct (map fst (credentials w))"
      and "text_ok (JDict (credentials w))" and "encodable new"
  shows "(case handle_password_change w fs of (w', fs', alerts, raised) \<Rightarrow>
           raised = None \<and>
           (if JStr old = stored \<and> 6 \<le> length new \<and> JStr new \<noteq> stored \<and> new = confirm
            then alerts = [Password_updated]
               \<and> credentials w' = dict_set (credentials w) (ascii ''password'') (JStr new)
               \<and> dict_get (credentials w') (ascii ''password'') (JStr (ascii ''123456'')) = JStr new
               \<and> CONFIG_FILE fs' = Some (Text (json_dumps (JDict (save_payload (credentials w')))))
               \<and> dict_get (save_payload (credentials w')) (ascii ''password'') JNone = JStr new
               \<and> DATA_FILE fs' = DATA_FILE fs
            else w' = w \<and> fs' = fs
               \<and> alerts = [if JStr old \<noteq> stored then Old_password_wrong
                            else if length new < 6 then New_password_too_short
                            else if JStr new = stored then New_password_same
                            else Confirmation_differs]))
         \<and> distinct [Old_password_wrong, New_password_too_short, New_password_same,
                      Confirmation_differs, Password_updated]"
proof -
  let ?c = "dict_set (credentials w) (ascii ''password'') (JStr new)"
  have k: "ascii ''password'' \<in> set credential_keys"
    by (simp add: credential_keys_def)
  have p: "dict_get (save_payload ?c) (ascii ''password'') JNone = JStr new"
    using assms(5) by (simp add: save_payload_get [OF _ k] distinct_dict_set dict_get_set_same)
  have s: "save_credentials (dict_set (credentials w) (ascii ''password'') (JStr n)) fs =
      (fs\<lparr>CONFIG_FILE := Some (Text (json_dumps (JDict (save_payload
          (dict_set (credentials w) (ascii ''password'') (JStr n))))))\<rparr>, None)"
    if "encodable n" for n
    using assms(6) that by (intro save_credentials_ok) (simp add: list_all_dict_set)
  show ?thesis
    using assms(1-4,7) p
    by (auto simp: handle_password_change_def pw_default s dict_get_set_same Let_def)
qed

theorem handle_password_change_witness:
  "(case handle_password_change
           (example_window\<lparr>old_password_input := Some (ascii ''123456''),
              new_password_input := Some (ascii ''abcdef''),
              confirm_password_input := Some (ascii ''abcdef'')\<rparr>) example_files
    of (w', fs', alerts, raised) \<Rightarrow>
      raised = None \<and> alerts = [Password_updated] \<and>
      dict_get (credentials w') (ascii ''password'') (JStr (ascii ''123456'')) = JStr (ascii ''abcdef''))"
proof -
  let ?w = "example_window\<lparr>old_password_input := Some (ascii ''123456''),
              new_password_input := Some (ascii ''abcdef''),
              confirm_password_input := Some (ascii ''abcdef'')\<rparr>"
  have st: "dict_get (credentials example_window) (ascii ''password'') (JStr (ascii ''123456''))
      = JStr (ascii ''123456'')"
    by (simp add: example_window_def DEFAULT_CREDENTIALS_def dict_get_def ascii_def)
  have di: "distinct (map fst (credentials ?w))"
    by (simp add: example_window_def DEFAULT_CREDENTIALS_def ascii_def)
  have ok: "text_ok (JDict (credentials ?w))"
    using text_ok_DEFAULT by (simp add: example_window_def)
  have ne: "JStr (ascii ''abcdef'') \<noteq> JStr (ascii ''123456'')" "6 \<le> length (ascii ''abcdef'')"
    by (simp_all add: ascii_def)
  show ?thesis
    using handle_password_change_spec [of ?w "ascii ''123456''" "ascii ''abcdef''" "ascii ''abcdef''",
        OF _ _ _ refl di ok, of example_files] ne
    by (simp add: st dict_get_set_same split: prod.splits)
qed


subsection \<open>C5: logging in\<close>

text \<open>
  Claim C5, as the code has it.  The entered user name is stripped of surrounding white
  space before it is compared; the password is compared as entered.  So the login is
  accepted exactly when the stripped user name and the password equal the stored ones, and
  the alert names the first mismatch.
\<close>

theorem validate_login_spec:
  assumes "\<not> accepted lw"
      and "expected_user = dict_get (login_credentials lw) (ascii ''username'') (JStr (ascii ''admin''))"
      and "expected_pass = dict_get (login_credentials lw) (ascii ''password'') (JStr (ascii ''123456''))"
  shows "(accepted (fst (validate_login lw)) \<longleftrightarrow>
            JStr (strip (username_edit lw)) = expected_user \<and> JStr (password_edit lw) = expected_pass)
       \<and> snd (validate_login lw) =
           (if JStr (strip (username_edit lw)) \<noteq> expected_user then [Wrong_username]
            else if JStr (password_edit lw) \<noteq> expected_pass then [Wrong_password] else [])"
  using assms by (auto simp: validate_login_def Let_def)

text \<open>
  The claim as stated compares the entered user name itself: with the stored name
  \<open>admin\<close>, the entry \<open>admin\<close> followed by a space is accepted although the two differ.
\<close>

theorem validate_login_counterexample:
  "accepted (fst (validate_login example_login)) \<and>
   JStr (username_edit example_login)
     \<noteq> dict_get (login_credentials example_login) (ascii ''username'') (JStr (ascii ''admin''))"
  by (simp add: validate_login_def Let_def example_login_def dict_get_def strip_def isspace_def
        in_ranges_def isspace_ranges_def ascii_def)

theorem validate_login_witness:
  "\<not> accepted example_login \<and> accepted (fst (validate_login example_login)) \<and>
   JStr (strip (username_edit example_login)) = JStr (ascii ''admin'')"
  using validate_login_spec [of example_login, OF _ refl refl]
  by (simp add: Let_def example_login_def dict_get_def strip_def isspace_def
        in_ranges_def isspace_ranges_def ascii_def)


subsection \<open>C8: the recent records\<close>

text \<open>
  Claim C8.  For a record list of any length, the recent-records table holds exactly the
  last \<open>min 4 (length records)\<close> records in reversed insertion order, the most recently
  appended one first; each row carries the index of its record in the list.
\<close>

theorem refresh_recent_records_spec:
  assumes "recent_table w = Some t"
  shows "recent_table (refresh_recent_records w) = Some (latest (records w))
       \<and> map snd (latest (records w)) = take 4 (rev (records w))
       \<and> map snd (latest (records w)) = rev (drop (length (records w) - 4) (records w))
       \<and> length (latest (records w)) = min 4 (length (records w))
       \<and> (\<forall>(i, r) \<in> set (latest (records w)). i < length (records w) \<and> records w ! i = r)"
proof -
  have "rev (drop (length rs - 4) rs) = take 4 (rev rs)" for rs :: "json list"
  proof (cases "4 \<le> length rs")
    case True
    then have "length rs - (length rs - 4) = 4" by simp
    then show ?thesis by (simp add: rev_drop)
  next
    case False
    then show ?thesis by (simp add: rev_drop)
  qed
  moreover have "length (latest rs) = min 4 (length rs)" for rs
    using arg_cong [OF map_snd_latest [of rs], of length] by (simp add: min_def)
  ultimately show ?thesis
    using assms by (auto simp: refresh_recent_records_def map_snd_latest dest: latest_nth)
qed

theorem refresh_recent_records_witness:
  "recent_table (refresh_recent_records (example_window\<lparr>records := example_records\<rparr>))
     = Some [(4, example_record ''2024-05-03'' ''fish'' 1600),
             (3, example_record ''2024-05-03'' ''soup'' 400),
             (2, example_record ''2024-05-02'' ''eggs'' 200),
             (1, example_record ''2024-05-01'' ''rice'' 700)]"
proof -
  have "recent_table (example_window\<lparr>records := example_records\<rparr>) = Some []"
    by (simp add: example_window_def)
  from refresh_recent_records_spec [OF this] show ?thesis
    by (simp add: latest_def enumerate_list_def example_records_def Let_def upt_rec)
qed


subsection \<open>C4: remaining and overage\<close>

text \<open>
  Claim C4, as the code has it.  The view computes the target minus the calorie total of
  the records dated today.  A strictly positive difference is shown as the remaining
  amount; a zero or negative difference is shown as an overage of its absolute value.
  The records are dicts, and those dated today have integer calories.
\<close>

theorem update_calorie_summary_spec:
  assumes "calorie_progress w = Some p" and "calorie_label w = Some l"
      and "calorie_delta_label w = Some d"
      and "\<forall>r \<in> set (records w). \<exists>d. r = JDict d"
      and "\<forall>r \<in> set (records w). is_dated today r \<longrightarrow> int_calories r \<noteq> None"
      and "total_today = (\<Sum>r \<leftarrow> filter (is_dated today) (records w). the (int_calories r))"
      and "remaining = target_calories w - total_today"
  shows "\<exists>w'. update_calorie_summary w today = Inr w'
            \<and> calorie_delta_label w' =
                Some (if remaining > 0 then Remaining remaining else Exceeded \<bar>remaining\<bar>)
            \<and> calorie_label w' = Some (total_today, target_calories w)
            \<and> calorie_progress w' = Some (target_calories w, min total_today (target_calories w))
            \<and> records w' = records w \<and> target_calories w' = target_calories w"
  using assms today_total_sum [OF assms(4,5), of 0]
  by (simp add: update_calorie_summary_def Let_def)

text \<open>
  The claim as stated puts a difference of zero on the remaining side.  With a target of
  2000 and 2000 kcal recorded today the difference is 0, which is non-negative, and the
  label shown is the overage label with amount 0.
\<close>

theorem update_calorie_summary_counterexample:
  "target_calories example_window - 2000 \<ge> 0 \<and>
   today_total example_records (ascii ''2024-05-03'') 0 = Inr 2000 \<and>
   map_sum id calorie_delta_label
     (update_calorie_summary (example_window\<lparr>records := example_records\<rparr>) (ascii ''2024-05-03''))
     = Inr (Some (Exceeded 0))"
  by (simp add: update_calorie_summary_def example_window_def example_records_def
        example_record_def py_get_def dict_get_def add_json_def ascii_def Let_def)

theorem update_calorie_summary_witness:
  "\<exists>w'. update_calorie_summary (example_window\<lparr>records := example_records\<rparr>) (ascii ''2024-05-01'')
          = Inr w' \<and> calorie_delta_label w' = Some (Remaining 1000)"
proof -
  let ?w = "example_window\<lparr>records := example_records\<rparr>"
  have a: "\<forall>r \<in> set (records ?w). \<exists>d. r = JDict d"
    by (simp add: example_records_def example_record_def)
  have b: "\<forall>r \<in> set (records ?w). is_dated (ascii ''2024-05-01'') r \<longrightarrow> int_calories r \<noteq> None"
    by (simp add: example_records_def example_record_def int_calories_def py_get_def dict_get_def
          ascii_def)
  have c: "(\<Sum>r \<leftarrow> filter (is_dated (ascii ''2024-05-01'')) (records ?w). the (int_calories r)) = 1000"
    by (simp add: example_records_def example_record_def int_calories_def is_dated_def py_get_def
          dict_get_def ascii_def)
  have "calorie_progress ?w = Some (2000, 0)" "calorie_label ?w = Some (0, 2000)"
       "calorie_delta_label ?w = Some (Remaining 2000)" "target_calories ?w = 2000"
    by (simp_all add: example_window_def)
  from update_calorie_summary_spec [OF this(1-3) a b refl refl] this(4) c
  show ?thesis by auto
qed

end
